theory Spec2Isabelle
  imports Main "HOL-Library.Word"
begin

section \<open>The Redis storage of the MaxScale cache filter\<close>

text \<open>
  A shallow embedding of
  \<^verbatim>\<open>server/modules/filter/cache/storage/storage_redis/redisstorage.cc\<close>:
  the reply wrapper \<^verbatim>\<open>Redis::Reply\<close>, the connection wrapper \<^verbatim>\<open>Redis\<close>, the four
  operations of \<^verbatim>\<open>RedisToken\<close> and the factory \<^verbatim>\<open>RedisStorage::create\<close>.

  Conventions of the model.
  \<^item> A connection is the list of commands appended to it so far and the list of replies
    the server still delivers. A read takes the next reply; when none is left the read
    fails (the server closed the connection), and so does every later read, as in
    hiredis, whose context keeps its error.
  \<^item> \<^verbatim>\<open>mxb_assert\<close> aborts in a debug build (\<^verbatim>\<open>SS_DEBUG\<close>) and is compiled out of a
    release build; the build is the parameter \<open>ss_debug\<close>. A failed assertion is the
    fault \<open>Assertion_failed\<close>. A read that a release build makes through a null
    pointer, or through a pointer that points to no reply, is the fault
    \<open>Invalid_read\<close>.
  \<^item> A log line is its level and its format string; the formatted arguments are left out.
  \<^item> Buffers have value semantics: a \<^verbatim>\<open>GWBUF\<close> is the bytes it holds. Running out of
    memory (\<^verbatim>\<open>new (std::nothrow)\<close>, \<^verbatim>\<open>gwbuf_alloc_and_load\<close>, an append to the output
    buffer) is not modelled.
\<close>

subsection \<open>Replies\<close>

type_synonym bytes = string

text \<open>
  hiredis' \<^verbatim>\<open>redisReply\<close>, by its \<^verbatim>\<open>type\<close>. The text of a status or an error reply is
  the C string that \<^verbatim>\<open>strcmp\<close> sees; the payload of a string reply is read together
  with its \<^verbatim>\<open>len\<close>. \<^verbatim>\<open>integer\<close> is a \<^verbatim>\<open>long long\<close> that the code only compares
  with 0 and 1.
\<close>

datatype reply =
    REDIS_REPLY_STRING bytes
  | REDIS_REPLY_ARRAY "reply list"
  | REDIS_REPLY_INTEGER int
  | REDIS_REPLY_NIL
  | REDIS_REPLY_STATUS string
  | REDIS_REPLY_ERROR string

datatype fault = Assertion_failed | Invalid_read

definition mxb_assert :: "bool \<Rightarrow> bool \<Rightarrow> fault + unit" where
  "mxb_assert ss_debug b = (if ss_debug \<and> \<not> b then Inl Assertion_failed else Inr ())"

definition and_then :: "fault + 'a \<Rightarrow> ('a \<Rightarrow> fault + 'b) \<Rightarrow> fault + 'b" where
  "and_then m f = (case m of Inl e \<Rightarrow> Inl e | Inr a \<Rightarrow> f a)"

fun is_array :: "reply \<Rightarrow> bool" where
  "is_array (REDIS_REPLY_ARRAY es) = True"
| "is_array r = False"

fun is_error :: "reply \<Rightarrow> bool" where
  "is_error (REDIS_REPLY_ERROR s) = True"
| "is_error r = False"

fun is_integer :: "reply \<Rightarrow> bool" where
  "is_integer (REDIS_REPLY_INTEGER i) = True"
| "is_integer r = False"

fun is_nil :: "reply \<Rightarrow> bool" where
  "is_nil REDIS_REPLY_NIL = True"
| "is_nil r = False"

text \<open>\<^verbatim>\<open>is_status(zValue)\<close>: \<open>None\<close> is the default argument \<^verbatim>\<open>nullptr\<close>.\<close>

fun is_status :: "reply \<Rightarrow> string option \<Rightarrow> bool" where
  "is_status (REDIS_REPLY_STATUS s) None = True"
| "is_status (REDIS_REPLY_STATUS s) (Some zValue) = (s = zValue)"
| "is_status r z = False"

fun is_string :: "reply \<Rightarrow> bool" where
  "is_string (REDIS_REPLY_STRING b) = True"
| "is_string r = False"

text \<open>
  The fields \<^verbatim>\<open>m_pReply->str\<close>, \<^verbatim>\<open>m_pReply->integer\<close> and \<^verbatim>\<open>m_pReply->element\<close> with
  \<^verbatim>\<open>m_pReply->elements\<close>. hiredis allocates a reply zeroed, so a reply of another type
  has a null \<^verbatim>\<open>str\<close> (here the empty string; it only ever reaches the log), the integer
  0 and a null \<^verbatim>\<open>element\<close> with \<^verbatim>\<open>elements\<close> 0 (here the empty list).
\<close>

fun reply_str :: "reply \<Rightarrow> bytes" where
  "reply_str (REDIS_REPLY_STRING b) = b"
| "reply_str (REDIS_REPLY_STATUS s) = s"
| "reply_str (REDIS_REPLY_ERROR s) = s"
| "reply_str r = []"

fun reply_integer :: "reply \<Rightarrow> int" where
  "reply_integer (REDIS_REPLY_INTEGER i) = i"
| "reply_integer r = 0"

fun reply_element :: "reply \<Rightarrow> reply list" where
  "reply_element (REDIS_REPLY_ARRAY es) = es"
| "reply_element r = []"

definition reply_elements :: "reply \<Rightarrow> nat" where
  "reply_elements r = length (reply_element r)"

text \<open>The accessors of \<^verbatim>\<open>Redis::Reply\<close> that assert the type of the reply.\<close>

definition integer :: "bool \<Rightarrow> reply \<Rightarrow> fault + int" where
  "integer ss_debug r =
     and_then (mxb_assert ss_debug (is_integer r)) (\<lambda>_. Inr (reply_integer r))"

definition str :: "bool \<Rightarrow> reply \<Rightarrow> fault + bytes" where
  "str ss_debug r =
     and_then (mxb_assert ss_debug (is_error r \<or> is_status r None \<or> is_string r))
       (\<lambda>_. Inr (reply_str r))"

definition len :: "bool \<Rightarrow> reply \<Rightarrow> fault + nat" where
  "len ss_debug r =
     and_then (mxb_assert ss_debug (is_error r \<or> is_status r None \<or> is_string r))
       (\<lambda>_. Inr (length (reply_str r)))"

definition elements :: "bool \<Rightarrow> reply \<Rightarrow> fault + nat" where
  "elements ss_debug r =
     and_then (mxb_assert ss_debug (is_array r)) (\<lambda>_. Inr (reply_elements r))"

text \<open>
  \<^verbatim>\<open>element(i)\<close> wraps the pointer \<^verbatim>\<open>m_pReply->element[i]\<close> as a borrowed reply. Both
  assertions are compiled out of a release build, which loads the pointer unchecked:
  \<^item> through the null \<^verbatim>\<open>element\<close> of a reply without elements the load is a read near
    address 0, the fault \<open>Invalid_read\<close>;
  \<^item> below \<^verbatim>\<open>elements\<close> it is the pointer to that element, \<open>Some\<close> of it;
  \<^item> past the end of an element array it is whatever lies behind the array, a pointer
    to no reply, \<open>None\<close>: the load itself goes through, and only a use of the
    borrowed reply reads through the pointer.
\<close>

definition element :: "bool \<Rightarrow> reply \<Rightarrow> nat \<Rightarrow> fault + reply option" where
  "element ss_debug r i =
     and_then (mxb_assert ss_debug (is_array r)) (\<lambda>_.
     and_then (mxb_assert ss_debug (i < reply_elements r)) (\<lambda>_.
       if reply_element r = [] then Inl Invalid_read
       else if i < reply_elements r then Inr (Some (reply_element r ! i))
       else Inr None))"

text \<open>
  A test of a borrowed reply inside an assertion, as in
  \<^verbatim>\<open>mxb_assert(element.is_integer())\<close>: it is evaluated in a debug build only, where
  the assertions of \<^verbatim>\<open>element(i)\<close> have made sure that the pointer is one to an element.
\<close>

definition borrowed_is :: "(reply \<Rightarrow> bool) \<Rightarrow> reply option \<Rightarrow> bool" where
  "borrowed_is test e = (case e of Some r \<Rightarrow> test r | None \<Rightarrow> False)"

subsection \<open>The connection\<close>

text \<open>
  A command is the list of its arguments: the literal words of the format string, a
  \<^verbatim>\<open>%b\<close> byte string with its length, or a \<^verbatim>\<open>%u\<close> 32-bit unsigned number. hiredis
  breaks a format string at its blanks and takes every other character as it stands,
  so the last argument of \<^verbatim>\<open>HSET %b %b \"1\"\<close> is the three characters \<open>quoted_1\<close>.
\<close>

datatype redis_arg = Lit string | Bytes bytes | UInt "32 word"

type_synonym redis_command = "redis_arg list"

definition quoted_1 :: string where
  "quoted_1 = [CHR 0x22, CHR ''1'', CHR 0x22]"

datatype log_entry = MXS_ERROR string | MXS_WARNING string

text \<open>
  The state a pool job works on: the token's connection \<^verbatim>\<open>m_redis\<close> (the commands
  appended to it in order, and the replies still to be read), and the log of the process.
\<close>

record redis =
  sent :: "redis_command list"
  incoming :: "reply list"
  logged :: "log_entry list"

definition mxs_log :: "log_entry \<Rightarrow> redis \<Rightarrow> redis" where
  "mxs_log e c = c\<lparr>logged := logged c @ [e]\<rparr>"

text \<open>
  \<^verbatim>\<open>appendCommand\<close> and \<^verbatim>\<open>appendCommandArgv\<close>: the command joins the output buffer.
  They fail only when memory runs out or the format is broken, so the result is always
  \<^verbatim>\<open>REDIS_OK\<close> here and every \<^verbatim>\<open>mxb_assert(rc == REDIS_OK)\<close> after an append holds.
\<close>

definition appendCommand :: "redis_command \<Rightarrow> redis \<Rightarrow> redis" where
  "appendCommand cmd c = c\<lparr>sent := sent c @ [cmd]\<rparr>"

text \<open>\<^verbatim>\<open>getReply\<close>: \<open>None\<close> is a result other than \<^verbatim>\<open>REDIS_OK\<close>.\<close>

definition getReply :: "redis \<Rightarrow> reply option \<times> redis" where
  "getReply c =
     (case incoming c of
        [] \<Rightarrow> (None, c)
      | r # rs \<Rightarrow> (Some r, c\<lparr>incoming := rs\<rparr>))"

text \<open>\<^verbatim>\<open>command\<close>: append and read; \<open>None\<close> is the null reply of \<^verbatim>\<open>redisvCommand\<close>.\<close>

definition command :: "redis_command \<Rightarrow> redis \<Rightarrow> reply option \<times> redis" where
  "command cmd c = getReply (appendCommand cmd c)"

text \<open>
  \<^verbatim>\<open>expect_status\<close>. \<^verbatim>\<open>reply.str()\<close> is called on a status reply, so its assertion holds.
  Only the branch of a status with another text sets \<^verbatim>\<open>rv = REDIS_ERR\<close>: a reply that is
  no status is logged and still answered with \<open>True\<close>.
\<close>

definition expect_status :: "string \<Rightarrow> string \<Rightarrow> redis \<Rightarrow> bool \<times> redis" where
  "expect_status zValue zContext c =
     (case getReply c of
        (Some reply, c1) \<Rightarrow>
          (if is_status reply None then
             (if reply_str reply \<noteq> zValue then
                (False, mxs_log (MXS_ERROR
                   ''Expected status message '%s' in the context of %s, but received '%s'.'') c1)
              else (True, c1))
           else
             (True, mxs_log (MXS_ERROR
                ''Expected status message in the context of %s, but received a %s.'') c1))
      | (None, c1) \<Rightarrow>
          (False, mxs_log (MXS_ERROR ''Failed to read reply in the context of %s: %s, %s'') c1))"

text \<open>\<^verbatim>\<open>expect_n_status\<close>: the loop reads all \<open>n\<close> replies whatever it finds.\<close>

fun expect_n_loop :: "nat \<Rightarrow> string \<Rightarrow> string \<Rightarrow> bool \<Rightarrow> redis \<Rightarrow> bool \<times> redis" where
  "expect_n_loop 0 zValue zContext rv c = (rv, c)"
| "expect_n_loop (Suc n) zValue zContext rv c =
     (case expect_status zValue zContext c of
        (ok, c1) \<Rightarrow> expect_n_loop n zValue zContext (if \<not> ok then False else rv) c1)"

definition expect_n_status :: "nat \<Rightarrow> string \<Rightarrow> string \<Rightarrow> redis \<Rightarrow> bool \<times> redis" where
  "expect_n_status n zValue zContext c = expect_n_loop n zValue zContext True c"

subsection \<open>The token and the delivery of results\<close>

datatype cache_result =
    CACHE_RESULT_OK
  | CACHE_RESULT_NOT_FOUND
  | CACHE_RESULT_ERROR
  | CACHE_RESULT_PENDING

type_synonym worker = nat

text \<open>
  \<^verbatim>\<open>RedisToken\<close>: the worker and the ttl; its connection \<^verbatim>\<open>m_redis\<close> is the state the
  jobs are given. The constructor takes the worker from \<^verbatim>\<open>mxb::Worker::get_current()\<close>,
  here the argument \<open>current\<close>: the worker on whose thread the token is constructed.
\<close>

record RedisToken =
  m_pWorker :: worker
  m_ttl :: "32 word"

definition RedisToken_new :: "32 word \<Rightarrow> worker \<Rightarrow> RedisToken" where
  "RedisToken_new ttl current = \<lparr>m_pWorker = current, m_ttl = ttl\<rparr>"

text \<open>
  Modelled from the spec: \<^verbatim>\<open>mxb::Worker::execute\<close> and \<^verbatim>\<open>mxs::thread_pool().execute\<close>
  are not among the sources. By the spec, \<^verbatim>\<open>pool_execute(job)\<close> runs the job on the pool,
  and \<^verbatim>\<open>worker.post(job, mode=QUEUED)\<close> enqueues the job for execution on that worker.
  So a pool job is a function of the connection, and what it hands to
  \<^verbatim>\<open>m_pWorker->execute(..., EXECUTE_QUEUED)\<close> is a task \<open>Posted w a\<close>: the worker it is
  queued on and the values its closure captured. A job that faulted has posted nothing.
\<close>

datatype 'a posted = Posted worker 'a

definition execute :: "worker \<Rightarrow> fault + 'a \<Rightarrow> fault + 'a posted" where
  "execute w r = and_then r (\<lambda>a. Inr (Posted w a))"

text \<open>
  The posted closure of every operation, run by the worker it was queued on: it calls
  \<^verbatim>\<open>cb\<close> if \<^verbatim>\<open>sThis.use_count() > 1\<close> (the session is still alive) and not otherwise.
  The result is the list of callback invocations, each with the worker whose thread
  made it and the arguments given to \<^verbatim>\<open>cb\<close>.
\<close>

definition callbacks :: "nat \<Rightarrow> fault + 'a posted \<Rightarrow> (worker \<times> 'a) list" where
  "callbacks use_count r =
     (case r of
        Inl f \<Rightarrow> []
      | Inr (Posted w a) \<Rightarrow> (if use_count > 1 then [(w, a)] else []))"

subsection \<open>get_value\<close>

text \<open>\<^verbatim>\<open>gwbuf_alloc_and_load(size, data)\<close>: a new buffer holding the first \<open>size\<close> bytes.\<close>

definition gwbuf_alloc_and_load :: "nat \<Rightarrow> bytes \<Rightarrow> bytes option" where
  "gwbuf_alloc_and_load size_arg data = Some (take size_arg data)"

text \<open>
  The pool job of \<^verbatim>\<open>get_value\<close>. \<^verbatim>\<open>reply.len()\<close> and \<^verbatim>\<open>reply.str()\<close> are called on a string
  reply, so their assertions hold. The task carries \<^verbatim>\<open>rv\<close> and \<^verbatim>\<open>pValue\<close>.
\<close>

definition get_value_job ::
  "RedisToken \<Rightarrow> bytes \<Rightarrow> redis \<Rightarrow> (fault + (cache_result \<times> bytes option) posted) \<times> redis" where
  "get_value_job sThis rkey c =
     (case command [Lit ''GET'', Bytes rkey] c of
        (Some reply, c1) \<Rightarrow>
          (case reply of
             REDIS_REPLY_STRING b \<Rightarrow>
               (execute (m_pWorker sThis)
                  (Inr (CACHE_RESULT_OK,
                        gwbuf_alloc_and_load (length (reply_str reply)) (reply_str reply))), c1)
           | REDIS_REPLY_NIL \<Rightarrow>
               (execute (m_pWorker sThis) (Inr (CACHE_RESULT_NOT_FOUND, None)), c1)
           | _ \<Rightarrow>
               (execute (m_pWorker sThis) (Inr (CACHE_RESULT_ERROR, None)),
                mxs_log (MXS_WARNING ''Unexpected redis redis return type (%s) received.'') c1))
      | (None, c1) \<Rightarrow>
          (execute (m_pWorker sThis) (Inr (CACHE_RESULT_ERROR, None)),
           mxs_log (MXS_WARNING ''Fatally failed when fetching cached value from redis: %s'') c1))"

subsection \<open>del_value\<close>

text \<open>
  The pool job of \<^verbatim>\<open>del_value\<close>. \<^verbatim>\<open>reply.integer()\<close> is called on an integer reply, so
  its assertion holds. In the \<^verbatim>\<open>switch\<close>, \<^verbatim>\<open>default\<close> logs and falls through to \<^verbatim>\<open>case 1\<close>.
\<close>

definition del_value_job ::
  "RedisToken \<Rightarrow> bytes \<Rightarrow> redis \<Rightarrow> (fault + cache_result posted) \<times> redis" where
  "del_value_job sThis rkey c =
     (case command [Lit ''DEL'', Bytes rkey] c of
        (Some reply, c1) \<Rightarrow>
          (if is_integer reply then
             (if reply_integer reply = 0 then
                (execute (m_pWorker sThis) (Inr CACHE_RESULT_NOT_FOUND), c1)
              else if reply_integer reply = 1 then
                (execute (m_pWorker sThis) (Inr CACHE_RESULT_OK), c1)
              else
                (execute (m_pWorker sThis) (Inr CACHE_RESULT_OK),
                 mxs_log (MXS_WARNING
                   ''Unexpected number of values - %lld - deleted with one key,'') c1))
           else
             (execute (m_pWorker sThis) (Inr CACHE_RESULT_ERROR),
              mxs_log (MXS_WARNING ''Unexpected redis return type (%s) received.'') c1))
      | (None, c1) \<Rightarrow>
          (execute (m_pWorker sThis) (Inr CACHE_RESULT_ERROR),
           mxs_log (MXS_WARNING ''Failed fatally when deleting cached value from redis: %s'') c1))"

subsection \<open>put_value\<close>

text \<open>
  The loop over the replies to the queued commands before the last one:
  \<^verbatim>\<open>element = reply.element(i); mxb_assert(element.is_integer());\<close> for \<open>i\<close> from 0.
\<close>

primrec integer_elements :: "bool \<Rightarrow> reply \<Rightarrow> nat \<Rightarrow> fault + unit" where
  "integer_elements ss_debug reply 0 = Inr ()"
| "integer_elements ss_debug reply (Suc i) =
     and_then (integer_elements ss_debug reply i) (\<lambda>_.
     and_then (element ss_debug reply i) (\<lambda>e.
       mxb_assert ss_debug (borrowed_is is_integer e)))"

text \<open>
  What \<^verbatim>\<open>put_value\<close> does with the reply to \<^verbatim>\<open>EXEC\<close> once it was read. The loop over the
  replies to \<^verbatim>\<open>HSET\<close> stands under \<^verbatim>\<open>#ifdef SS_DEBUG\<close>. The test
  \<^verbatim>\<open>element.is_status("OK")\<close> runs in every build and reads through the borrowed pointer.
  The error message is formatted from \<^verbatim>\<open>reply.str()\<close>, the array, not from
  \<^verbatim>\<open>element.str()\<close>.
\<close>

definition put_value_exec :: "bool \<Rightarrow> nat \<Rightarrow> reply \<Rightarrow> fault + cache_result" where
  "put_value_exec ss_debug n reply =
     and_then (mxb_assert ss_debug (is_array reply)) (\<lambda>_.
     and_then (mxb_assert ss_debug (reply_elements reply = n + 1)) (\<lambda>_.
     and_then (if ss_debug then integer_elements ss_debug reply n else Inr ()) (\<lambda>_.
     and_then (element ss_debug reply n) (\<lambda>e.
     and_then (mxb_assert ss_debug (borrowed_is (\<lambda>r. is_status r None) e)) (\<lambda>_.
       case e of
         None \<Rightarrow> Inl Invalid_read
       | Some r \<Rightarrow>
           if \<not> is_status r (Some ''OK'') then
             and_then (str ss_debug reply) (\<lambda>_. Inr CACHE_RESULT_ERROR)
           else Inr CACHE_RESULT_OK)))))"

definition hset_command :: "bytes \<Rightarrow> bytes \<Rightarrow> redis_command" where
  "hset_command rkey w = [Lit ''HSET'', Bytes w, Bytes rkey, Lit quoted_1]"

definition set_command :: "bytes \<Rightarrow> bytes \<Rightarrow> 32 word \<Rightarrow> redis_command" where
  "set_command rkey pClone ttl = [Lit ''SET'', Bytes rkey, Bytes pClone, Lit ''PX'', UInt ttl]"

text \<open>The four appends that open the job: the commands of the transaction.\<close>

definition put_value_append :: "RedisToken \<Rightarrow> bytes \<Rightarrow> bytes list \<Rightarrow> bytes \<Rightarrow> redis \<Rightarrow> redis" where
  "put_value_append sThis rkey invalidation_words pClone c =
     appendCommand [Lit ''EXEC'']
       (appendCommand (set_command rkey pClone (m_ttl sThis))
          (foldl (\<lambda>c1 w. appendCommand (hset_command rkey w) c1)
             (appendCommand [Lit ''MULTI''] c) invalidation_words))"

text \<open>
  The pool job of \<^verbatim>\<open>put_value\<close>; \<open>pClone\<close> is the clone of the caller's buffer. \<^verbatim>\<open>rv\<close>
  starts as \<^verbatim>\<open>CACHE_RESULT_OK\<close>. When \<^verbatim>\<open>expect_status(\"OK\", \"MULTI\")\<close> fails, the branch
  logs and assigns \<^verbatim>\<open>rc = CACHE_RESULT_ERROR\<close>, the \<^verbatim>\<open>int\<close> of the return codes, so \<^verbatim>\<open>rv\<close>
  stays as it is. The result of \<^verbatim>\<open>expect_n_status\<close> is not looked at.
\<close>

definition put_value_job ::
  "bool \<Rightarrow> RedisToken \<Rightarrow> bytes \<Rightarrow> bytes list \<Rightarrow> bytes \<Rightarrow> redis
     \<Rightarrow> (fault + cache_result posted) \<times> redis" where
  "put_value_job ss_debug sThis rkey invalidation_words pClone c =
     (let n = length invalidation_words;
          c1 = put_value_append sThis rkey invalidation_words pClone c
      in case expect_status ''OK'' ''MULTI'' c1 of
           (True, c2) \<Rightarrow>
             (case expect_n_status (n + 1) ''QUEUED'' ''queued command'' c2 of
                (queued, c3) \<Rightarrow>
                  (case getReply c3 of
                     (Some reply, c4) \<Rightarrow>
                       (let rv = put_value_exec ss_debug n reply
                        in (execute (m_pWorker sThis) rv,
                            if rv = Inr CACHE_RESULT_ERROR then
                              mxs_log (MXS_ERROR
                                ''Failed when storing cache value to redis, expected 'OK' but received '%s'.'')
                                c4
                            else c4))
                   | (None, c4) \<Rightarrow>
                       (execute (m_pWorker sThis) (Inr CACHE_RESULT_ERROR),
                        mxs_log (MXS_WARNING
                          ''Failed fatally when reading reply to EXEC: %s, %s'') c4)))
         | (False, c2) \<Rightarrow>
             (execute (m_pWorker sThis) (Inr CACHE_RESULT_OK),
              mxs_log (MXS_ERROR ''Failed when reading response to MULTI: %s, %s'') c2))"

subsection \<open>invalidate\<close>

text \<open>
  The inner loop of phase A over one array reply, \<^verbatim>\<open>j = j + 2\<close> from 0 while below
  \<^verbatim>\<open>reply.elements()\<close>: the elements at the even places are the fields. A string element
  joins \<^verbatim>\<open>del_argv\<close> and \<^verbatim>\<open>hdel_argv\<close>; another one is logged. The index stays below
  \<^verbatim>\<open>elements\<close> and \<^verbatim>\<open>str\<close>, \<^verbatim>\<open>len\<close> are called on a string, so no assertion fails.
\<close>

fun collect_fields ::
  "reply list \<Rightarrow> redis_command \<times> redis_command \<times> redis \<Rightarrow> redis_command \<times> redis_command \<times> redis" where
  "collect_fields [] acc = acc"
| "collect_fields [e] (del_argv, hdel_argv, c) =
     (if is_string e then
        (del_argv @ [Bytes (reply_str e)], hdel_argv @ [Bytes (reply_str e)], c)
      else (del_argv, hdel_argv, mxs_log (MXS_ERROR ''Unexpected type returned by redis: %s'') c))"
| "collect_fields (e # v # rest) (del_argv, hdel_argv, c) =
     collect_fields rest
       (if is_string e then
          (del_argv @ [Bytes (reply_str e)], hdel_argv @ [Bytes (reply_str e)], c)
        else (del_argv, hdel_argv, mxs_log (MXS_ERROR ''Unexpected type returned by redis: %s'') c))"

text \<open>
  The outer loop of phase A, one read per word: an array reply adds its \<^verbatim>\<open>hdel_argv\<close>
  to \<^verbatim>\<open>hdel_argvs\<close>, also when it found no field; a reply of another type adds nothing;
  a failed read is logged.
\<close>

fun gather ::
  "bytes list \<Rightarrow> redis_command list \<times> redis_command \<times> redis
     \<Rightarrow> redis_command list \<times> redis_command \<times> redis" where
  "gather [] acc = acc"
| "gather (w # ws) (hdel_argvs, del_argv, c) =
     (case getReply c of
        (Some reply, c1) \<Rightarrow>
          (if is_array reply then
             (case collect_fields (reply_element reply) (del_argv, [Lit ''HDEL'', Bytes w], c1) of
                (del_argv1, hdel_argv, c2) \<Rightarrow> gather ws (hdel_argvs @ [hdel_argv], del_argv1, c2))
           else gather ws (hdel_argvs, del_argv, c1))
      | (None, c1) \<Rightarrow>
          gather ws (hdel_argvs, del_argv,
            mxs_log (MXS_ERROR ''Could not read redis reply for hash update for '%s': %s, %s'') c1))"

text \<open>Phase A: one \<^verbatim>\<open>HGETALL\<close> per word, then the replies; \<^verbatim>\<open>del_argv\<close> starts as \<^verbatim>\<open>DEL\<close>.\<close>

definition phase_A :: "bytes list \<Rightarrow> redis \<Rightarrow> redis_command list \<times> redis_command \<times> redis" where
  "phase_A words c =
     gather words ([], [Lit ''DEL''],
       foldl (\<lambda>c1 w. appendCommand [Lit ''HGETALL'', Bytes w] c1) c words)"

text \<open>
  What \<^verbatim>\<open>invalidate\<close> does with the reply to \<^verbatim>\<open>EXEC\<close> once it was read; \<open>m\<close> is
  \<^verbatim>\<open>hdel_argvs.size()\<close>. Here the loop over the elements runs in every build, but the
  borrowed replies are looked at inside assertions only.
\<close>

definition invalidate_exec :: "bool \<Rightarrow> nat \<Rightarrow> reply \<Rightarrow> fault + cache_result" where
  "invalidate_exec ss_debug m reply =
     and_then (mxb_assert ss_debug (is_array reply)) (\<lambda>_.
     and_then (mxb_assert ss_debug (reply_elements reply = m + 1)) (\<lambda>_.
     and_then (integer_elements ss_debug reply m) (\<lambda>_.
     and_then (element ss_debug reply m) (\<lambda>e.
     and_then (mxb_assert ss_debug (borrowed_is is_integer e)) (\<lambda>_.
       Inr CACHE_RESULT_OK)))))"

text \<open>The appends of phase B: an \<^verbatim>\<open>HDEL\<close> only for a list that holds a field.\<close>

definition phase_B_append :: "redis_command list \<Rightarrow> redis_command \<Rightarrow> redis \<Rightarrow> redis" where
  "phase_B_append hdel_argvs del_argv c =
     appendCommand [Lit ''EXEC'']
       (appendCommand del_argv
          (foldl (\<lambda>c1 hdel_argv. if length hdel_argv > 2 then appendCommand hdel_argv c1 else c1)
             (appendCommand [Lit ''MULTI''] c) hdel_argvs))"

definition phase_B ::
  "bool \<Rightarrow> redis_command list \<Rightarrow> redis_command \<Rightarrow> redis \<Rightarrow> (fault + cache_result) \<times> redis" where
  "phase_B ss_debug hdel_argvs del_argv c =
     (case expect_status ''OK'' ''MULTI'' (phase_B_append hdel_argvs del_argv c) of
        (True, c1) \<Rightarrow>
          (case expect_n_status (length hdel_argvs + 1) ''QUEUED'' ''queued command'' c1 of
             (queued, c2) \<Rightarrow>
               (case getReply c2 of
                  (Some reply, c3) \<Rightarrow> (invalidate_exec ss_debug (length hdel_argvs) reply, c3)
                | (None, c3) \<Rightarrow>
                    (Inr CACHE_RESULT_ERROR,
                     mxs_log (MXS_ERROR
                       ''Could not read EXEC reply from redis, the cache is now in an unknown state: %s, %s'')
                       c3)))
      | (False, c1) \<Rightarrow>
          (Inr CACHE_RESULT_ERROR,
           mxs_log (MXS_ERROR
             ''Could not read MULTI reply from redis, the cache is now in an unknown state: %s, %s'')
             c1))"

text \<open>The pool job of \<^verbatim>\<open>invalidate\<close>: phase B only if \<^verbatim>\<open>del_argv.size() > 1\<close>.\<close>

definition invalidate_job ::
  "bool \<Rightarrow> RedisToken \<Rightarrow> bytes list \<Rightarrow> redis \<Rightarrow> (fault + cache_result posted) \<times> redis" where
  "invalidate_job ss_debug sThis words c =
     (case phase_A words c of
        (hdel_argvs, del_argv, c1) \<Rightarrow>
          (if length del_argv > 1 then
             (case phase_B ss_debug hdel_argvs del_argv c1 of
                (rv, c2) \<Rightarrow> (execute (m_pWorker sThis) rv, c2))
           else (execute (m_pWorker sThis) (Inr CACHE_RESULT_OK), c1)))"

subsection \<open>The storage and its factory\<close>

text \<open>
  Modelled from the spec: the declaration of \<^verbatim>\<open>Config\<close> is not among the sources. The
  spec gives it as \<^verbatim>\<open>{ soft_ttl_ms, hard_ttl_ms, max_size, max_count }\<close>; the two ttls are
  printed with \<^verbatim>\<open>%u\<close> and stored in a \<^verbatim>\<open>uint32_t\<close>, the two bounds are only compared
  with 0.
\<close>

record Config =
  soft_ttl :: "32 word"
  hard_ttl :: "32 word"
  max_size :: nat
  max_count :: nat

record RedisStorage =
  m_name :: string
  m_config :: Config
  m_host :: string
  m_port :: int
  m_ttl :: "32 word"

text \<open>The constructor: both branches on \<^verbatim>\<open>ms == 0\<close> store the hard ttl, in milliseconds.\<close>

definition RedisStorage_new ::
  "string \<Rightarrow> Config \<Rightarrow> string \<Rightarrow> int \<Rightarrow> RedisStorage \<times> log_entry list" where
  "RedisStorage_new name config host port =
     (let ms = hard_ttl config
      in (\<lparr>m_name = name, m_config = config, m_host = host, m_port = port,
           m_ttl = (if ms = 0 then 0 else hard_ttl config)\<rparr>,
          if soft_ttl config \<noteq> hard_ttl config then
            [MXS_WARNING
              ''The storage storage_redis does not distinguish between soft (%u ms) and hard ttl (%u ms). Hard ttl is used.'']
          else []))"

text \<open>
  Modelled from the spec: \<^verbatim>\<open>mxb::strtok\<close> is not among the sources. The spec has the
  argument parsed into colon-separated fields; the fields are taken as C's \<^verbatim>\<open>strtok\<close>,
  after which the helper is named, takes them: the maximal runs of characters that are
  no delimiter. \<open>tok\<close> is the run read so far.
\<close>

fun strtok_from :: "string \<Rightarrow> string \<Rightarrow> string \<Rightarrow> string list" where
  "strtok_from delim tok [] = (if tok = [] then [] else [tok])"
| "strtok_from delim tok (c # cs) =
     (if c \<in> set delim then
        (if tok = [] then strtok_from delim [] cs else tok # strtok_from delim [] cs)
      else strtok_from delim (tok @ [c]) cs)"

definition strtok :: "string \<Rightarrow> string \<Rightarrow> string list" where
  "strtok s delim = strtok_from delim [] s"

text \<open>
  Modelled from the spec: \<^verbatim>\<open>mxb::get_int\<close> is not among the sources. The spec takes
  \<^verbatim>\<open>PORT\<close> to be a decimal integer and has the ports \<^verbatim>\<open>0\<close> and \<^verbatim>\<open>-1\<close> read and then
  rejected: an optional minus sign and decimal digits, nothing else, with a value that
  fits the \<^verbatim>\<open>int\<close> it is stored in. \<open>None\<close> is the result \<^verbatim>\<open>false\<close>.
\<close>

definition is_digit :: "char \<Rightarrow> bool" where
  "is_digit c = (48 \<le> (of_char c :: nat) \<and> (of_char c :: nat) \<le> 57)"

definition digit_value :: "char \<Rightarrow> nat" where
  "digit_value c = of_char c - 48"

definition decimal_value :: "string \<Rightarrow> nat" where
  "decimal_value s = foldl (\<lambda>a c. 10 * a + digit_value c) 0 s"

definition get_int :: "string \<Rightarrow> int option" where
  "get_int s =
     (case s of
        [] \<Rightarrow> None
      | c # cs \<Rightarrow>
          (if c = CHR ''-'' then
             (if cs \<noteq> [] \<and> list_all is_digit cs \<and> decimal_value cs \<le> 2147483648
              then Some (- int (decimal_value cs)) else None)
           else if list_all is_digit s \<and> decimal_value s \<le> 2147483647
             then Some (int (decimal_value s)) else None))"

text \<open>The decimal numeral of a number, to write ports with.\<close>

fun decimal :: "nat \<Rightarrow> string" where
  "decimal n =
     (if n < 10 then [char_of (48 + n)]
      else decimal (n div 10) @ [char_of (48 + n mod 10)])"

declare decimal.simps [simp del]

text \<open>\<^verbatim>\<open>RedisStorage::create\<close>: the storage or \<^verbatim>\<open>nullptr\<close>, and the lines it logs.\<close>

definition create :: "string \<Rightarrow> Config \<Rightarrow> string \<Rightarrow> RedisStorage option \<times> log_entry list" where
  "create name config arguments =
     (let warnings =
            (if max_size config \<noteq> 0 then
               [MXS_WARNING
                 ''The storage storage_redis does not support specifying a maximum size of the cache storage.'']
             else [])
            @ (if max_count config \<noteq> 0 then
                 [MXS_WARNING
                   ''The storage storage_redis does not support specifying a maximum number of items in the cache storage.'']
               else []);
          vs = strtok arguments '':''
      in if length vs = 2 then
           (let host = vs ! 0
            in case get_int (vs ! 1) of
                 Some port \<Rightarrow>
                   (if port > 0 then
                      (case RedisStorage_new name config host port of
                         (pStorage, constructed) \<Rightarrow> (Some pStorage, warnings @ constructed))
                    else
                      (None, warnings @
                         [MXS_ERROR
                           ''The provided arugments '%s' does not translate into a valid host:port combination.'']))
               | None \<Rightarrow>
                   (None, warnings @
                      [MXS_ERROR
                        ''The provided arugments '%s' does not translate into a valid host:port combination.'']))
         else
           (None, warnings @
              [MXS_ERROR
                ''storage_redis expects a `storage_options` argument of HOST:PORT format: %s'']))"

text \<open>
  \<^verbatim>\<open>RedisStorage::create_token\<close> through \<^verbatim>\<open>RedisToken::create\<close>. \<open>pRedis\<close> is what
  \<^verbatim>\<open>redisConnect(host, port)\<close> returned, \<open>None\<close> for a null handle; \<open>current\<close> is the
  worker that calls. The token gets the ttl of the storage.
\<close>

definition create_token ::
  "RedisStorage \<Rightarrow> redis option \<Rightarrow> worker \<Rightarrow> (RedisToken \<times> redis) option \<times> log_entry list" where
  "create_token storage pRedis current =
     (case pRedis of
        Some c \<Rightarrow> (Some (RedisToken_new (RedisStorage.m_ttl storage) current, c), [])
      | None \<Rightarrow>
          (None,
           [MXS_ERROR ''Could not create redis handle, are the arguments '%s:%d' valid?'']))"

subsection \<open>Predicates of the properties\<close>

text \<open>
  The callbacks of one operation: at most one, and none on another worker than \<open>w\<close>.
\<close>

definition on_worker_at_most_once :: "worker \<Rightarrow> (worker \<times> 'a) list \<Rightarrow> bool" where
  "on_worker_at_most_once w cbs = (length cbs \<le> 1 \<and> list_all (\<lambda>cb. fst cb = w) cbs)"

text \<open>A run of colons, possibly empty: what stands around the fields of an argument.\<close>

definition colons :: "string \<Rightarrow> bool" where
  "colons s = list_all (\<lambda>ch. ch = CHR '':'') s"

section \<open>Properties\<close>

subsection \<open>What the primitives do to the connection\<close>

lemma sent_appendCommand: "sent (appendCommand cmd c) = sent c @ [cmd]"
  by (simp add: appendCommand_def)

lemma incoming_appendCommand: "incoming (appendCommand cmd c) = incoming c"
  by (simp add: appendCommand_def)

lemma logged_appendCommand: "logged (appendCommand cmd c) = logged c"
  by (simp add: appendCommand_def)

lemma sent_mxs_log: "sent (mxs_log e c) = sent c"
  by (simp add: mxs_log_def)

lemma incoming_mxs_log: "incoming (mxs_log e c) = incoming c"
  by (simp add: mxs_log_def)

lemma sent_append_all:
  "sent (foldl (\<lambda>c1 w. appendCommand (f w) c1) c ws) = sent c @ map f ws"
  by (induction ws arbitrary: c) (simp_all add: sent_appendCommand)

lemma incoming_append_all:
  "incoming (foldl (\<lambda>c1 w. appendCommand (f w) c1) c ws) = incoming c"
  by (induction ws arbitrary: c) (simp_all add: incoming_appendCommand)

lemma logged_append_all:
  "logged (foldl (\<lambda>c1 w. appendCommand (f w) c1) c ws) = logged c"
  by (induction ws arbitrary: c) (simp_all add: logged_appendCommand)

lemma sent_getReply: "sent (snd (getReply c)) = sent c"
  by (simp add: getReply_def split: list.split)

lemma incoming_getReply: "incoming (snd (getReply c)) = drop 1 (incoming c)"
  by (simp add: getReply_def split: list.split)

lemma sent_expect_status: "sent (snd (expect_status v ctx c)) = sent c"
  by (simp add: expect_status_def getReply_def sent_mxs_log split: list.split)

lemma incoming_expect_status: "incoming (snd (expect_status v ctx c)) = drop 1 (incoming c)"
  by (simp add: expect_status_def getReply_def incoming_mxs_log split: list.split)

lemma sent_expect_n_loop: "sent (snd (expect_n_loop n v ctx rv c)) = sent c"
proof (induction n arbitrary: rv c)
  case 0
  show ?case by simp
next
  case (Suc n)
  obtain ok c1 where e: "expect_status v ctx c = (ok, c1)"
    by (cases "expect_status v ctx c")
  have "sent c1 = sent c"
    using sent_expect_status [of v ctx c] e by simp
  then show ?case
    using Suc.IH e by simp
qed

lemma incoming_expect_n_loop:
  "incoming (snd (expect_n_loop n v ctx rv c)) = drop n (incoming c)"
proof (induction n arbitrary: rv c)
  case 0
  show ?case by simp
next
  case (Suc n)
  obtain ok c1 where e: "expect_status v ctx c = (ok, c1)"
    by (cases "expect_status v ctx c")
  have "incoming c1 = drop 1 (incoming c)"
    using incoming_expect_status [of v ctx c] e by simp
  then show ?case
    using Suc.IH e by (simp add: drop_Suc tl_drop) 
qed

lemma sent_put_value_append:
  "sent (put_value_append sThis rkey ws pClone c) =
     sent c @ [[Lit ''MULTI'']] @ map (hset_command rkey) ws
       @ [set_command rkey pClone (RedisToken.m_ttl sThis), [Lit ''EXEC'']]"
  by (simp add: put_value_append_def sent_appendCommand sent_append_all)

lemma incoming_put_value_append:
  "incoming (put_value_append sThis rkey ws pClone c) = incoming c"
  by (simp add: put_value_append_def incoming_appendCommand incoming_append_all)

lemma sent_put_value_job:
  "sent (snd (put_value_job ss_debug sThis rkey ws pClone c)) =
     sent (put_value_append sThis rkey ws pClone c)"
proof -
  let ?c1 = "put_value_append sThis rkey ws pClone c"
  obtain ok c2 where e1: "expect_status ''OK'' ''MULTI'' ?c1 = (ok, c2)"
    by (cases "expect_status ''OK'' ''MULTI'' ?c1")
  have s2: "sent c2 = sent ?c1"
    using sent_expect_status [of "''OK''" "''MULTI''" ?c1] e1 by simp
  obtain q c3 where e2: "expect_n_status (length ws + 1) ''QUEUED'' ''queued command'' c2 = (q, c3)"
    by (cases "expect_n_status (length ws + 1) ''QUEUED'' ''queued command'' c2")
  have s3: "sent c3 = sent c2"
    using sent_expect_n_loop [of "length ws + 1" "''QUEUED''" "''queued command''" True c2] e2
    by (simp add: expect_n_status_def)
  obtain r c4 where e3: "getReply c3 = (r, c4)"
    by (cases "getReply c3")
  have s4: "sent c4 = sent c3"
    using sent_getReply [of c3] e3 by simp
  show ?thesis
    using e1 e2 e3 s2 s3 s4
    by (cases ok; cases r) (simp_all add: put_value_job_def Let_def sent_mxs_log)
qed

lemma callbacks_execute:
  "callbacks use_count (execute w (Inr a)) = (if use_count > 1 then [(w, a)] else [])"
  by (simp add: callbacks_def execute_def and_then_def)

subsection \<open>get_value and del_value\<close>

text \<open>
  Claim C6. For every \<^verbatim>\<open>get_value\<close> call, the delivered result is classified from the
  reply read for \<^verbatim>\<open>GET\<close>: a string reply delivers \<^verbatim>\<open>OK\<close> with a buffer holding exactly
  the bytes of the reply; a nil reply delivers \<^verbatim>\<open>NOT_FOUND\<close> and no buffer; a reply of
  any other type, or a failed read, delivers \<^verbatim>\<open>ERROR\<close> and no buffer. The callback is
  made once, on the worker of the token, if the session is still alive
  (\<open>use_count > 1\<close>); the one command sent is \<^verbatim>\<open>GET rkey\<close>.
\<close>

theorem get_value_classifies_reply:
  "callbacks use_count (fst (get_value_job sThis rkey c)) =
     (if use_count > 1 then
        [(m_pWorker sThis,
          case incoming c of
            [] \<Rightarrow> (CACHE_RESULT_ERROR, None)
          | REDIS_REPLY_STRING b # rs \<Rightarrow> (CACHE_RESULT_OK, Some b)
          | REDIS_REPLY_NIL # rs \<Rightarrow> (CACHE_RESULT_NOT_FOUND, None)
          | r # rs \<Rightarrow> (CACHE_RESULT_ERROR, None))]
      else [])
   \<and> sent (snd (get_value_job sThis rkey c)) = sent c @ [[Lit ''GET'', Bytes rkey]]"
  by (simp add: get_value_job_def command_def getReply_def appendCommand_def mxs_log_def
      gwbuf_alloc_and_load_def callbacks_execute split: list.split reply.split)

text \<open>
  Claim C7. For every \<^verbatim>\<open>del_value\<close> call: an integer reply of 0 delivers \<^verbatim>\<open>NOT_FOUND\<close>;
  an integer reply of 1 delivers \<^verbatim>\<open>OK\<close>; any other integer reply delivers \<^verbatim>\<open>OK\<close> with
  a warning in the log; a reply that is no integer, or a failed read, delivers
  \<^verbatim>\<open>ERROR\<close>. The one command sent is \<^verbatim>\<open>DEL rkey\<close>.
\<close>

theorem del_value_classifies_reply:
  "callbacks use_count (fst (del_value_job sThis rkey c)) =
     (if use_count > 1 then
        [(m_pWorker sThis,
          case incoming c of
            [] \<Rightarrow> CACHE_RESULT_ERROR
          | REDIS_REPLY_INTEGER i # rs \<Rightarrow>
              (if i = 0 then CACHE_RESULT_NOT_FOUND else CACHE_RESULT_OK)
          | r # rs \<Rightarrow> CACHE_RESULT_ERROR)]
      else [])
   \<and> sent (snd (del_value_job sThis rkey c)) = sent c @ [[Lit ''DEL'', Bytes rkey]]
   \<and> logged (snd (del_value_job sThis rkey c)) = logged c @
       (case incoming c of
          [] \<Rightarrow> [MXS_WARNING ''Failed fatally when deleting cached value from redis: %s'']
        | REDIS_REPLY_INTEGER i # rs \<Rightarrow>
            (if i = 0 \<or> i = 1 then []
             else [MXS_WARNING ''Unexpected number of values - %lld - deleted with one key,''])
        | r # rs \<Rightarrow> [MXS_WARNING ''Unexpected redis return type (%s) received.''])"
  by (simp add: del_value_job_def command_def getReply_def appendCommand_def mxs_log_def
      callbacks_execute split: list.split reply.split)

subsection \<open>The commands of put_value\<close>

text \<open>
  Claim C8. For every \<^verbatim>\<open>put_value(k, W, v)\<close> call, in either build and whatever the
  server replies, the commands appended to the connection are, in this order:
  \<^verbatim>\<open>MULTI\<close>, one \<^verbatim>\<open>HSET w k "1"\<close> for each invalidation word in list order (none for
  an empty list), the \<^verbatim>\<open>SET\<close> of the value, and \<^verbatim>\<open>EXEC\<close> last.
\<close>

theorem put_value_command_order:
  "sent (snd (put_value_job ss_debug sThis rkey invalidation_words pClone c)) =
     sent c @ [[Lit ''MULTI'']]
       @ map (\<lambda>w. [Lit ''HSET'', Bytes w, Bytes rkey, Lit quoted_1]) invalidation_words
       @ [[Lit ''SET'', Bytes rkey, Bytes pClone, Lit ''PX'', UInt (RedisToken.m_ttl sThis)],
          [Lit ''EXEC'']]"
proof -
  have "map (hset_command rkey) invalidation_words =
      map (\<lambda>w. [Lit ''HSET'', Bytes w, Bytes rkey, Lit quoted_1]) invalidation_words"
    by (simp add: hset_command_def)
  then show ?thesis
    by (simp add: sent_put_value_job sent_put_value_append set_command_def)
qed

subsection \<open>invalidate without words\<close>

text \<open>
  Claim C10. \<^verbatim>\<open>invalidate\<close> with an empty word list leaves the connection as it was
  (no command is appended, no reply is read, nothing is logged) and the callback
  delivers \<^verbatim>\<open>OK\<close>.
\<close>

theorem invalidate_no_words:
  "invalidate_job ss_debug sThis [] c = (Inr (Posted (m_pWorker sThis) CACHE_RESULT_OK), c)
   \<and> callbacks use_count (fst (invalidate_job ss_debug sThis [] c)) =
       (if use_count > 1 then [(m_pWorker sThis, CACHE_RESULT_OK)] else [])"
  by (simp add: invalidate_job_def phase_A_def callbacks_execute)
     (simp add: execute_def and_then_def)

subsection \<open>The factory\<close>

lemma strtok_from_run:
  "(\<forall>c \<in> set xs. c \<notin> set delim) \<Longrightarrow>
     strtok_from delim tok (xs @ rest) = strtok_from delim (tok @ xs) rest"
  by (induction xs arbitrary: tok) simp_all

lemma strtok_host_port:
  assumes "host \<noteq> []" "port \<noteq> []" "CHR '':'' \<notin> set host" "CHR '':'' \<notin> set port"
  shows "strtok (host @ '':'' @ port) '':'' = [host, port]"
proof -
  have h: "\<forall>c \<in> set host. c \<notin> set '':''" using assms(3) by auto
  have p: "\<forall>c \<in> set port. c \<notin> set '':''" using assms(4) by auto
  have "strtok_from '':'' [] (host @ ('':'' @ port)) = strtok_from '':'' host ('':'' @ port)"
    using strtok_from_run [OF h, of "[]"] by simp
  also have "\<dots> = host # strtok_from '':'' [] port"
    using assms(1) by simp
  also have "strtok_from '':'' [] port = strtok_from '':'' port []"
    using strtok_from_run [OF p, of "[]" "[]"] by simp
  also have "\<dots> = [port]"
    using assms(2) by simp
  finally show ?thesis by (simp add: strtok_def)
qed

lemma decimal_value_snoc:
  "decimal_value (xs @ [c]) = 10 * decimal_value xs + digit_value c"
  by (simp add: decimal_value_def)

lemma digit_char: "(d::nat) < 10 \<Longrightarrow> digit_value (char_of (48 + d)) = d"
  by (simp add: digit_value_def)

lemma is_digit_char: "(d::nat) < 10 \<Longrightarrow> is_digit (char_of (48 + d))"
  by (simp add: is_digit_def)

lemma decimal_value_decimal: "decimal_value (decimal n) = n"
proof (induction n rule: decimal.induct)
  case (1 n)
  show ?case
  proof (cases "n < 10")
    case True
    then show ?thesis
      using digit_char [of n]
      by (simp add: decimal.simps [of n] decimal_value_def)
  next
    case False
    have "n mod 10 < 10" by simp
    then have "digit_value (char_of (48 + n mod 10)) = n mod 10"
      by (rule digit_char)
    then show ?thesis
      using False 1 decimal_value_snoc [of "decimal (n div 10)" "char_of (48 + n mod 10)"]
      by (simp add: decimal.simps [of n])
  qed
qed

lemma decimal_digits: "list_all is_digit (decimal n)"
proof (induction n rule: decimal.induct)
  case (1 n)
  show ?case
  proof (cases "n < 10")
    case True
    then show ?thesis using is_digit_char [of n] by (simp add: decimal.simps [of n])
  next
    case False
    have "is_digit (char_of (48 + n mod 10))"
      by (rule is_digit_char) simp
    then show ?thesis
      using False 1 by (simp add: decimal.simps [of n])
  qed
qed

lemma decimal_not_empty: "decimal n \<noteq> []"
  by (simp add: decimal.simps [of n])

lemma digit_not_colon: "is_digit c \<Longrightarrow> c \<noteq> CHR '':'' \<and> c \<noteq> CHR ''-''"
  by (auto simp: is_digit_def)

lemma decimal_no_colon: "CHR '':'' \<notin> set (decimal n)"
  using decimal_digits [of n] digit_not_colon by (auto simp: list_all_iff)

lemma get_int_decimal: "n \<le> 2147483647 \<Longrightarrow> get_int (decimal n) = Some (int n)"
proof -
  assume n: "n \<le> 2147483647"
  obtain c cs where d: "decimal n = c # cs"
    using decimal_not_empty [of n] by (cases "decimal n") auto
  have "is_digit c"
    using decimal_digits [of n] d by simp
  then have "c \<noteq> CHR ''-''"
    using digit_not_colon by blast
  then show ?thesis
    using n d decimal_digits [of n] decimal_value_decimal [of n]
    by (simp add: get_int_def)
qed


lemma create_host_port:
  assumes "host \<noteq> []" "CHR '':'' \<notin> set host" "0 < p" "p \<le> 2147483647"
  shows "fst (create name config (host @ '':'' @ decimal p)) =
     Some \<lparr>m_name = name, m_config = config, m_host = host, m_port = int p,
            m_ttl = hard_ttl config\<rparr>"
proof -
  have vs: "strtok (host @ '':'' @ decimal p) '':'' = [host, decimal p]"
    by (rule strtok_host_port [OF assms(1) decimal_not_empty assms(2) decimal_no_colon])
  have g: "get_int (decimal p) = Some (int p)"
    using assms(4) by (rule get_int_decimal)
  show ?thesis
    unfolding create_def Let_def vs
    using assms(3) by (simp add: g RedisStorage_new_def)
qed


lemma decimal_6379: "decimal 6379 = ''6379''"
  by (simp add: decimal.simps char_of_def bit_Suc_0_iff)

lemma strtok_from_skip:
  "list_all (\<lambda>ch. ch \<in> set delim) ds \<Longrightarrow>
     strtok_from delim [] (ds @ rest) = strtok_from delim [] rest"
  by (induction ds) simp_all

lemma strtok_from_some: "tok \<noteq> [] \<Longrightarrow> strtok_from delim tok s \<noteq> []"
  by (induction s arbitrary: tok) simp_all

lemma strtok_from_none:
  "strtok_from delim [] s = [] \<longleftrightarrow> list_all (\<lambda>ch. ch \<in> set delim) s"
  by (induction s) (simp_all add: strtok_from_some)

lemma strtok_from_run_cons:
  assumes "tok \<noteq> []" and "strtok_from delim tok s = t # ts"
  shows "\<exists>run rest. s = run @ rest \<and> t = tok @ run \<and> (\<forall>ch \<in> set run. ch \<notin> set delim)
      \<and> (rest = [] \<or> hd rest \<in> set delim) \<and> strtok_from delim [] rest = ts"
  using assms
proof (induction s arbitrary: tok)
  case Nil
  then have "t = tok" "ts = []"
    by simp_all
  then show ?case
    by simp
next
  case (Cons c cs)
  show ?case
  proof (cases "c \<in> set delim")
    case True
    then have "t = tok" and "ts = strtok_from delim [] cs"
      using Cons.prems by simp_all
    then have "c # cs = [] @ (c # cs) \<and> t = tok @ [] \<and> (\<forall>ch \<in> set []. ch \<notin> set delim)
        \<and> (c # cs = [] \<or> hd (c # cs) \<in> set delim) \<and> strtok_from delim [] (c # cs) = ts"
      using True by simp
    then show ?thesis
      by blast
  next
    case False
    then have "strtok_from delim (tok @ [c]) cs = t # ts"
      using Cons.prems by simp
    then obtain run rest where r: "cs = run @ rest" "t = (tok @ [c]) @ run"
      "\<forall>ch \<in> set run. ch \<notin> set delim" "rest = [] \<or> hd rest \<in> set delim"
      "strtok_from delim [] rest = ts"
      using Cons.IH [of "tok @ [c]"] by blast
    have "c # cs = (c # run) @ rest \<and> t = tok @ (c # run)
        \<and> (\<forall>ch \<in> set (c # run). ch \<notin> set delim)
        \<and> (rest = [] \<or> hd rest \<in> set delim) \<and> strtok_from delim [] rest = ts"
      using r False by simp
    then show ?thesis
      by blast
  qed
qed

lemma strtok_from_cons:
  assumes "strtok_from delim [] s = t # ts"
  shows "\<exists>ds rest. s = ds @ t @ rest \<and> list_all (\<lambda>ch. ch \<in> set delim) ds
      \<and> t \<noteq> [] \<and> (\<forall>ch \<in> set t. ch \<notin> set delim)
      \<and> (rest = [] \<or> hd rest \<in> set delim)
      \<and> strtok_from delim [] rest = ts"
  using assms
proof (induction s)
  case Nil
  then show ?case by simp
next
  case (Cons c cs)
  show ?case
  proof (cases "c \<in> set delim")
    case True
    then have "strtok_from delim [] cs = t # ts"
      using Cons.prems by simp
    then obtain ds rest where r: "cs = ds @ t @ rest" "list_all (\<lambda>ch. ch \<in> set delim) ds"
      "t \<noteq> []" "\<forall>ch \<in> set t. ch \<notin> set delim" "rest = [] \<or> hd rest \<in> set delim"
      "strtok_from delim [] rest = ts"
      using Cons.IH by blast
    have "c # cs = (c # ds) @ t @ rest \<and> list_all (\<lambda>ch. ch \<in> set delim) (c # ds)
        \<and> t \<noteq> [] \<and> (\<forall>ch \<in> set t. ch \<notin> set delim)
        \<and> (rest = [] \<or> hd rest \<in> set delim) \<and> strtok_from delim [] rest = ts"
      using r True by simp
    then show ?thesis
      by blast
  next
    case False
    then have "strtok_from delim [c] cs = t # ts"
      using Cons.prems by simp
    then obtain run rest where r: "cs = run @ rest" "t = [c] @ run"
      "\<forall>ch \<in> set run. ch \<notin> set delim" "rest = [] \<or> hd rest \<in> set delim"
      "strtok_from delim [] rest = ts"
      using strtok_from_run_cons [of "[c]" delim cs t ts] by blast
    have "c # cs = [] @ t @ rest \<and> list_all (\<lambda>ch. ch \<in> set delim) []
        \<and> t \<noteq> [] \<and> (\<forall>ch \<in> set t. ch \<notin> set delim)
        \<and> (rest = [] \<or> hd rest \<in> set delim) \<and> strtok_from delim [] rest = ts"
      using r False by simp
    then show ?thesis
      by blast
  qed
qed

lemma colons_delim: "colons s \<longleftrightarrow> list_all (\<lambda>ch. ch \<in> set '':'') s"
  by (simp add: colons_def)

lemma no_colon_delim: "CHR '':'' \<notin> set s \<longleftrightarrow> (\<forall>ch \<in> set s. ch \<notin> set '':'')"
  by auto

lemma strtok_two_fields_D:
  assumes "strtok s '':'' = [host, port]"
  shows "\<exists>c1 c2 c3. s = c1 @ host @ c2 @ port @ c3 \<and> colons c1 \<and> colons c2 \<and> c2 \<noteq> []
        \<and> colons c3 \<and> host \<noteq> [] \<and> CHR '':'' \<notin> set host
        \<and> port \<noteq> [] \<and> CHR '':'' \<notin> set port"
proof -
  have "strtok_from '':'' [] s = host # [port]"
    using assms by (simp add: strtok_def)
  then obtain c1 r1 where s: "s = c1 @ host @ r1" and c1: "list_all (\<lambda>ch. ch \<in> set '':'') c1"
    and h: "host \<noteq> []" "\<forall>ch \<in> set host. ch \<notin> set '':''"
    and r1: "r1 = [] \<or> hd r1 \<in> set '':''" and t1: "strtok_from '':'' [] r1 = port # []"
    using strtok_from_cons [of "'':''" s host "[port]"] by blast
  obtain c2 r2 where r: "r1 = c2 @ port @ r2" and c2: "list_all (\<lambda>ch. ch \<in> set '':'') c2"
    and p: "port \<noteq> []" "\<forall>ch \<in> set port. ch \<notin> set '':''"
    and t2: "strtok_from '':'' [] r2 = []"
    using strtok_from_cons [OF t1] by blast
  have c3: "list_all (\<lambda>ch. ch \<in> set '':'') r2"
    using t2 strtok_from_none [of "'':''" r2] by blast
  have "c2 \<noteq> []"
  proof
    assume e: "c2 = []"
    obtain x xs where x: "port = x # xs"
      using p(1) by (cases port) blast+
    have "r1 = x # (xs @ r2)"
      unfolding r e x by simp
    then have "x \<in> set '':''"
      using r1 by auto
    moreover have "x \<notin> set '':''"
      using p(2) unfolding x by simp
    ultimately show False
      by blast
  qed
  moreover have "s = c1 @ host @ c2 @ port @ r2"
    unfolding s r by (rule refl)
  ultimately have "s = c1 @ host @ c2 @ port @ r2 \<and> colons c1 \<and> colons c2 \<and> c2 \<noteq> []
        \<and> colons r2 \<and> host \<noteq> [] \<and> CHR '':'' \<notin> set host
        \<and> port \<noteq> [] \<and> CHR '':'' \<notin> set port"
    using c1 c2 c3 h p unfolding colons_delim no_colon_delim by blast
  then show ?thesis
    by blast
qed

lemma strtok_from_colons: "colons s \<Longrightarrow> strtok_from '':'' [] s = []"
  using strtok_from_none [of "'':''" s] by (simp add: colons_delim)

lemma strtok_from_token_end:
  assumes "tok \<noteq> []" and "colons c3"
  shows "strtok_from '':'' tok c3 = [tok]"
proof (cases c3)
  case Nil
  then show ?thesis using assms(1) by simp
next
  case (Cons x xs)
  then have x: "x = CHR '':''" and xs: "colons xs"
    using assms(2) by (simp_all add: colons_def)
  have "strtok_from '':'' tok (x # xs) = tok # strtok_from '':'' [] xs"
    using assms(1) x by simp
  then show ?thesis
    unfolding Cons using strtok_from_colons [OF xs] by simp
qed

lemma strtok_two_fields_I:
  assumes "colons c1" and "colons c2" and "c2 \<noteq> []" and "colons c3"
    and "host \<noteq> []" and "CHR '':'' \<notin> set host" and "port \<noteq> []" and "CHR '':'' \<notin> set port"
  shows "strtok (c1 @ host @ c2 @ port @ c3) '':'' = [host, port]"
proof -
  obtain c c2' where c2: "c2 = c # c2'"
    using assms(3) by (cases c2) blast+
  have c: "c = CHR '':''" and c2': "colons c2'"
    using assms(2) unfolding c2 by (simp_all add: colons_def)
  have d1: "list_all (\<lambda>ch. ch \<in> set '':'') c1" and d2: "list_all (\<lambda>ch. ch \<in> set '':'') c2'"
    using assms(1) c2' by (simp_all add: colons_delim)
  have hh: "\<forall>ch \<in> set host. ch \<notin> set '':''" and pp: "\<forall>ch \<in> set port. ch \<notin> set '':''"
    using assms(6,8) by (simp_all add: no_colon_delim)
  have a: "strtok_from '':'' [] (c1 @ host @ c2 @ port @ c3) =
      strtok_from '':'' [] (host @ c2 @ port @ c3)"
    by (rule strtok_from_skip [OF d1])
  have b: "strtok_from '':'' [] (host @ c2 @ port @ c3) =
      strtok_from '':'' ([] @ host) (c2 @ port @ c3)"
    by (rule strtok_from_run [OF hh])
  have e: "strtok_from '':'' host (c # c2' @ port @ c3) =
      host # strtok_from '':'' [] (c2' @ port @ c3)"
    using assms(5) c by simp
  have f: "strtok_from '':'' [] (c2' @ port @ c3) = strtok_from '':'' [] (port @ c3)"
    by (rule strtok_from_skip [OF d2])
  have g: "strtok_from '':'' [] (port @ c3) = strtok_from '':'' ([] @ port) c3"
    by (rule strtok_from_run [OF pp])
  have h: "strtok_from '':'' port c3 = [port]"
    by (rule strtok_from_token_end [OF assms(7) assms(4)])
  have "strtok_from '':'' [] (c1 @ host @ c2 @ port @ c3) = [host, port]"
    unfolding a b unfolding c2 append_Nil append_Cons e f g h by (rule refl)
  then show ?thesis
    by (simp only: strtok_def)
qed

lemma strtok_two_fields:
  "strtok s '':'' = [host, port] \<longleftrightarrow>
     (\<exists>c1 c2 c3. s = c1 @ host @ c2 @ port @ c3 \<and> colons c1 \<and> colons c2 \<and> c2 \<noteq> []
        \<and> colons c3 \<and> host \<noteq> [] \<and> CHR '':'' \<notin> set host
        \<and> port \<noteq> [] \<and> CHR '':'' \<notin> set port)"
  using strtok_two_fields_D [of s host port] strtok_two_fields_I [of _ _ _ host port]
  by blast









text \<open>
  The edges of the accepted arguments: a port above the largest \<^verbatim>\<open>int\<close> and a port with
  a plus sign are rejected; empty fields between the colons are passed over and zeros
  before the number are read.
\<close>

lemma create_edge_arguments:
  "fst (create name config ''h:2147483648'') = None
   \<and> fst (create name config ''h:+1'') = None
   \<and> fst (create name config ''h:2147483647'') \<noteq> None
   \<and> fst (create name config ''h::1'') \<noteq> None
   \<and> fst (create name config ''h:0007'') \<noteq> None"
  by (simp add: create_def strtok_def get_int_def is_digit_def decimal_value_def
      digit_value_def RedisStorage_new_def)


subsection \<open>A failed MULTI in put_value\<close>

lemma expect_status_unread:
  "incoming c = [] \<Longrightarrow>
     expect_status zValue zContext c =
       (False, mxs_log (MXS_ERROR ''Failed to read reply in the context of %s: %s, %s'') c)"
  by (simp add: expect_status_def getReply_def)

lemma expect_status_other:
  "incoming c = REDIS_REPLY_STATUS s # rs \<Longrightarrow> s \<noteq> zValue \<Longrightarrow>
     fst (expect_status zValue zContext c) = False"
  by (simp add: expect_status_def getReply_def)

lemma expect_status_match:
  "incoming c = REDIS_REPLY_STATUS zValue # rs \<Longrightarrow>
     expect_status zValue zContext c = (True, c\<lparr>incoming := rs\<rparr>)"
  by (simp add: expect_status_def getReply_def)

lemma put_value_job_multi_failed:
  "fst (expect_status ''OK'' ''MULTI'' (put_value_append sThis rkey ws pClone c)) = False \<Longrightarrow>
     fst (put_value_job ss_debug sThis rkey ws pClone c) =
       Inr (Posted (m_pWorker sThis) CACHE_RESULT_OK)"
  by (cases "expect_status ''OK'' ''MULTI'' (put_value_append sThis rkey ws pClone c)")
     (simp add: put_value_job_def Let_def execute_def and_then_def)

text \<open>
  Claim C1 asks for \<^verbatim>\<open>ERROR\<close> when the reply to \<^verbatim>\<open>MULTI\<close> cannot be read or is not the
  status \<^verbatim>\<open>OK\<close>. The code delivers \<^verbatim>\<open>OK\<close> there: with a live session
  (\<open>use_count = 2\<close>), in either build and for every key, word list and value, a
  connection that delivers nothing more, and one whose next reply is the status
  \<^verbatim>\<open>QUEUED\<close>, both end in the callback \<^verbatim>\<open>cb(CACHE_RESULT_OK)\<close>.
\<close>

theorem put_value_multi_failure_delivers_ok:
  "callbacks 2 (fst (put_value_job ss_debug sThis rkey invalidation_words pClone
       (c\<lparr>incoming := []\<rparr>))) = [(m_pWorker sThis, CACHE_RESULT_OK)]
   \<and> callbacks 2 (fst (put_value_job ss_debug sThis rkey invalidation_words pClone
       (c\<lparr>incoming := REDIS_REPLY_STATUS ''QUEUED'' # rs\<rparr>))) =
         [(m_pWorker sThis, CACHE_RESULT_OK)]"
proof -
  let ?c0 = "c\<lparr>incoming := []\<rparr>"
  let ?c1 = "c\<lparr>incoming := REDIS_REPLY_STATUS ''QUEUED'' # rs\<rparr>"
  have "incoming (put_value_append sThis rkey invalidation_words pClone ?c0) = []"
    by (simp add: incoming_put_value_append)
  then have a: "fst (expect_status ''OK'' ''MULTI''
      (put_value_append sThis rkey invalidation_words pClone ?c0)) = False"
    by (simp add: expect_status_unread)
  have "incoming (put_value_append sThis rkey invalidation_words pClone ?c1) =
      REDIS_REPLY_STATUS ''QUEUED'' # rs"
    by (simp add: incoming_put_value_append)
  then have b: "fst (expect_status ''OK'' ''MULTI''
      (put_value_append sThis rkey invalidation_words pClone ?c1)) = False"
    by (rule expect_status_other) simp
  show ?thesis
    using put_value_job_multi_failed [OF a] put_value_job_multi_failed [OF b]
    by (simp add: callbacks_def)
qed

subsection \<open>The ttl 0 in put_value\<close>

text \<open>
  Claim C2 asks that \<^verbatim>\<open>PX\<close> be left out of \<^verbatim>\<open>SET\<close> when the ttl is 0. The code sends
  \<^verbatim>\<open>PX 0\<close>: a storage created with a hard ttl of 0 has the ttl 0, its tokens have
  the ttl 0, and the \<^verbatim>\<open>SET\<close> that \<^verbatim>\<open>put_value\<close> appends on such a token is
  \<^verbatim>\<open>SET rkey value PX 0\<close>.
\<close>

theorem put_value_ttl_zero_sends_PX_0:
  "fst (create name (config\<lparr>hard_ttl := 0\<rparr>) ''127.0.0.1:6379'') =
     Some \<lparr>m_name = name, m_config = config\<lparr>hard_ttl := 0\<rparr>, m_host = ''127.0.0.1'',
            m_port = 6379, m_ttl = 0\<rparr>
   \<and> fst (create_token \<lparr>m_name = name, m_config = config\<lparr>hard_ttl := 0\<rparr>,
            m_host = ''127.0.0.1'', m_port = 6379, m_ttl = 0\<rparr> (Some c) current) =
     Some (RedisToken_new 0 current, c)
   \<and> sent (snd (put_value_job ss_debug (RedisToken_new 0 current) rkey invalidation_words
            pClone c)) =
     sent c @ [[Lit ''MULTI'']]
       @ map (\<lambda>w. [Lit ''HSET'', Bytes w, Bytes rkey, Lit quoted_1]) invalidation_words
       @ [[Lit ''SET'', Bytes rkey, Bytes pClone, Lit ''PX'', UInt 0], [Lit ''EXEC'']]"
proof (intro conjI)
  have "fst (create name (config\<lparr>hard_ttl := 0\<rparr>) (''127.0.0.1'' @ '':'' @ decimal 6379)) =
     Some \<lparr>m_name = name, m_config = config\<lparr>hard_ttl := 0\<rparr>, m_host = ''127.0.0.1'',
            m_port = int 6379, m_ttl = hard_ttl (config\<lparr>hard_ttl := 0\<rparr>)\<rparr>"
    by (rule create_host_port) simp_all
  then show "fst (create name (config\<lparr>hard_ttl := 0\<rparr>) ''127.0.0.1:6379'') =
     Some \<lparr>m_name = name, m_config = config\<lparr>hard_ttl := 0\<rparr>, m_host = ''127.0.0.1'',
            m_port = 6379, m_ttl = 0\<rparr>"
    by (simp add: decimal_6379)
next
  show "fst (create_token \<lparr>m_name = name, m_config = config\<lparr>hard_ttl := 0\<rparr>,
            m_host = ''127.0.0.1'', m_port = 6379, m_ttl = 0\<rparr> (Some c) current) =
     Some (RedisToken_new 0 current, c)"
    by (simp add: create_token_def)
next
  have "map (hset_command rkey) invalidation_words =
      map (\<lambda>w. [Lit ''HSET'', Bytes w, Bytes rkey, Lit quoted_1]) invalidation_words"
    by (simp add: hset_command_def)
  then show "sent (snd (put_value_job ss_debug (RedisToken_new 0 current) rkey invalidation_words
            pClone c)) =
     sent c @ [[Lit ''MULTI'']]
       @ map (\<lambda>w. [Lit ''HSET'', Bytes w, Bytes rkey, Lit quoted_1]) invalidation_words
       @ [[Lit ''SET'', Bytes rkey, Bytes pClone, Lit ''PX'', UInt 0], [Lit ''EXEC'']]"
    by (simp add: sent_put_value_job sent_put_value_append set_command_def RedisToken_new_def)
qed

subsection \<open>The worker of the callbacks\<close>

lemma callbacks_of_execute:
  "on_worker_at_most_once w (callbacks use_count (execute w r))"
  by (cases r) (simp_all add: on_worker_at_most_once_def callbacks_def execute_def and_then_def)

lemma get_value_job_posts:
  "\<exists>r. fst (get_value_job sThis rkey c) = execute (m_pWorker sThis) r"
  by (simp add: get_value_job_def split: prod.split option.split reply.split) blast

lemma del_value_job_posts:
  "\<exists>r. fst (del_value_job sThis rkey c) = execute (m_pWorker sThis) r"
  by (simp add: del_value_job_def split: prod.split option.split) blast

lemma put_value_job_posts:
  "\<exists>r. fst (put_value_job ss_debug sThis rkey ws pClone c) = execute (m_pWorker sThis) r"
  by (simp add: put_value_job_def Let_def split: prod.split option.split bool.split) blast

lemma invalidate_job_posts:
  "\<exists>r. fst (invalidate_job ss_debug sThis words c) = execute (m_pWorker sThis) r"
  by (simp add: invalidate_job_def split: prod.split) blast

text \<open>
  Claim C9. For each of \<^verbatim>\<open>get_value\<close>, \<^verbatim>\<open>put_value\<close>, \<^verbatim>\<open>del_value\<close> and \<^verbatim>\<open>invalidate\<close>
  on a token constructed on the worker \<open>current\<close>, in either build, for every
  argument, reply stream and use count: the user callback is invoked at most once, and
  only on the worker \<open>current\<close>.
\<close>

theorem callbacks_on_creating_worker:
  "on_worker_at_most_once current
     (callbacks use_count (fst (get_value_job (RedisToken_new ttl current) rkey c)))
   \<and> on_worker_at_most_once current
     (callbacks use_count
        (fst (put_value_job ss_debug (RedisToken_new ttl current) rkey invalidation_words pClone c)))
   \<and> on_worker_at_most_once current
     (callbacks use_count (fst (del_value_job (RedisToken_new ttl current) rkey c)))
   \<and> on_worker_at_most_once current
     (callbacks use_count (fst (invalidate_job ss_debug (RedisToken_new ttl current) words c)))"
proof -
  have w: "m_pWorker (RedisToken_new ttl current) = current"
    by (simp add: RedisToken_new_def)
  show ?thesis
    using get_value_job_posts [of "RedisToken_new ttl current" rkey c]
      put_value_job_posts [of ss_debug "RedisToken_new ttl current" rkey invalidation_words pClone c]
      del_value_job_posts [of "RedisToken_new ttl current" rkey c]
      invalidate_job_posts [of ss_debug "RedisToken_new ttl current" words c]
    by (auto simp: w callbacks_of_execute)
qed

theorem callbacks_on_creating_worker_witness:
  "on_worker_at_most_once 3
     (callbacks 2 (fst (get_value_job (RedisToken_new 0 3) ''k''
        \<lparr>sent = [], incoming = [REDIS_REPLY_STRING ''v''], logged = []\<rparr>)))
   \<and> callbacks 2 (fst (get_value_job (RedisToken_new 0 3) ''k''
        \<lparr>sent = [], incoming = [REDIS_REPLY_STRING ''v''], logged = []\<rparr>))
     = [(3, CACHE_RESULT_OK, Some ''v'')]"
proof -
  have "callbacks 2 (fst (get_value_job (RedisToken_new 0 3) ''k''
        \<lparr>sent = [], incoming = [REDIS_REPLY_STRING ''v''], logged = []\<rparr>))
     = [(3, CACHE_RESULT_OK, Some ''v'')]"
    by (simp add: get_value_job_def command_def getReply_def appendCommand_def
        gwbuf_alloc_and_load_def callbacks_execute RedisToken_new_def)
  then show ?thesis
    using callbacks_on_creating_worker [of 3 2 0 "''k''"
        "\<lparr>sent = [], incoming = [REDIS_REPLY_STRING ''v''], logged = []\<rparr>"]
    by simp
qed

subsection \<open>The reply to EXEC\<close>

lemmas job_defs = put_value_job_def put_value_append_def put_value_exec_def invalidate_job_def
  phase_A_def phase_B_def phase_B_append_def invalidate_exec_def expect_status_def
  expect_n_status_def getReply_def appendCommand_def mxs_log_def execute_def and_then_def
  mxb_assert_def element_def reply_elements_def borrowed_is_def str_def hset_command_def
  set_command_def callbacks_def RedisToken_new_def Let_def

text \<open>
  Claim C3 asks that \<^verbatim>\<open>put_value\<close> deliver \<^verbatim>\<open>ERROR\<close>, and not panic, when the reply to
  \<^verbatim>\<open>EXEC\<close> is not an array of \<open>|W| + 1\<close> elements ending in the status \<^verbatim>\<open>OK\<close>. The code
  does not look at the type of that reply outside its assertions. A server that refuses
  writes answers \<^verbatim>\<open>MULTI\<close> with \<^verbatim>\<open>OK\<close>, the two queued commands with errors and \<^verbatim>\<open>EXEC\<close>
  with the error \<^verbatim>\<open>EXECABORT\<close>. On these replies a debug build fails
  \<^verbatim>\<open>mxb_assert(reply.is_array())\<close>, and a release build reads \<^verbatim>\<open>element[1]\<close> through the
  null element pointer of the error reply. With a live session (\<open>use_count = 2\<close>)
  neither build makes a callback, so none delivers \<^verbatim>\<open>ERROR\<close>.
\<close>

theorem put_value_exec_error_reply_faults:
  "fst (put_value_job True (RedisToken_new 1000 7) ''k'' [''t1''] ''v''
      \<lparr>sent = [],
         incoming = [REDIS_REPLY_STATUS ''OK'', REDIS_REPLY_ERROR ''MISCONF'',
           REDIS_REPLY_ERROR ''MISCONF'', REDIS_REPLY_ERROR ''EXECABORT''],
         logged = []\<rparr>) = Inl Assertion_failed
   \<and> fst (put_value_job False (RedisToken_new 1000 7) ''k'' [''t1''] ''v''
      \<lparr>sent = [],
         incoming = [REDIS_REPLY_STATUS ''OK'', REDIS_REPLY_ERROR ''MISCONF'',
           REDIS_REPLY_ERROR ''MISCONF'', REDIS_REPLY_ERROR ''EXECABORT''],
         logged = []\<rparr>) = Inl Invalid_read
   \<and> callbacks 2 (fst (put_value_job True (RedisToken_new 1000 7) ''k'' [''t1''] ''v''
      \<lparr>sent = [],
         incoming = [REDIS_REPLY_STATUS ''OK'', REDIS_REPLY_ERROR ''MISCONF'',
           REDIS_REPLY_ERROR ''MISCONF'', REDIS_REPLY_ERROR ''EXECABORT''],
         logged = []\<rparr>)) = []
   \<and> callbacks 2 (fst (put_value_job False (RedisToken_new 1000 7) ''k'' [''t1''] ''v''
      \<lparr>sent = [],
         incoming = [REDIS_REPLY_STATUS ''OK'', REDIS_REPLY_ERROR ''MISCONF'',
           REDIS_REPLY_ERROR ''MISCONF'', REDIS_REPLY_ERROR ''EXECABORT''],
         logged = []\<rparr>)) = []"
  by (simp add: job_defs)

text \<open>
  Where the reply to \<^verbatim>\<open>EXEC\<close> is an array and the element at the index \<open>|W|\<close> is there,
  the code does what the claim says: a status other than \<^verbatim>\<open>OK\<close>, or an element of another
  type, ends in \<^verbatim>\<open>ERROR\<close> and an error in the log in a release build. So does a reply to
  \<^verbatim>\<open>EXEC\<close> that cannot be read, in either build.
\<close>

lemma put_value_exec_wrong_status:
  "callbacks 2 (fst (put_value_job False (RedisToken_new 1000 7) ''k'' [''t1''] ''v''
      \<lparr>sent = [],
         incoming = [REDIS_REPLY_STATUS ''OK'', REDIS_REPLY_STATUS ''QUEUED'',
           REDIS_REPLY_STATUS ''QUEUED'',
           REDIS_REPLY_ARRAY [REDIS_REPLY_INTEGER 1, REDIS_REPLY_ERROR ''ERR'']],
         logged = []\<rparr>)) = [(7, CACHE_RESULT_ERROR)]
   \<and> callbacks 2 (fst (put_value_job ss_debug (RedisToken_new 1000 7) ''k'' [''t1''] ''v''
      \<lparr>sent = [],
         incoming = [REDIS_REPLY_STATUS ''OK'', REDIS_REPLY_STATUS ''QUEUED'',
           REDIS_REPLY_STATUS ''QUEUED''],
         logged = []\<rparr>)) = [(7, CACHE_RESULT_ERROR)]"
  by (simp add: job_defs)

subsection \<open>The result of invalidate\<close>

text \<open>
  Claim C5 asks that \<^verbatim>\<open>invalidate\<close>, once phase A has found a key, deliver \<^verbatim>\<open>OK\<close> when the
  reply to \<^verbatim>\<open>MULTI\<close> is the status \<^verbatim>\<open>OK\<close> and the reply to \<^verbatim>\<open>EXEC\<close> can be read. The code
  queues an \<^verbatim>\<open>HDEL\<close> only for a hash in which it found a field, but reads one \<^verbatim>\<open>QUEUED\<close>
  for every array reply of phase A and one more. Take the words \<^verbatim>\<open>t1\<close> and \<^verbatim>\<open>t2\<close>, the
  key \<^verbatim>\<open>k\<close> under \<^verbatim>\<open>t1\<close>, nothing under \<^verbatim>\<open>t2\<close>, and a server that answers each command
  as the protocol has it: two arrays for the two \<^verbatim>\<open>HGETALL\<close>, then \<^verbatim>\<open>OK\<close>, \<^verbatim>\<open>QUEUED\<close>,
  \<^verbatim>\<open>QUEUED\<close> and the array of the two results for \<^verbatim>\<open>MULTI\<close>, \<^verbatim>\<open>HDEL\<close>, \<^verbatim>\<open>DEL\<close> and \<^verbatim>\<open>EXEC\<close>.
  The code sends exactly these four commands of phase B, reads the reply to \<^verbatim>\<open>EXEC\<close> as
  a third \<^verbatim>\<open>QUEUED\<close> (logging that it is no status), finds no reply left for \<^verbatim>\<open>EXEC\<close> and
  delivers \<^verbatim>\<open>ERROR\<close>, in either build.
\<close>

theorem invalidate_empty_hash_delivers_error:
  "callbacks 2 (fst (invalidate_job True (RedisToken_new 1000 7) [''t1'', ''t2'']
      \<lparr>sent = [],
         incoming = [REDIS_REPLY_ARRAY [REDIS_REPLY_STRING ''k'', REDIS_REPLY_STRING ''1''],
           REDIS_REPLY_ARRAY [],
           REDIS_REPLY_STATUS ''OK'', REDIS_REPLY_STATUS ''QUEUED'',
           REDIS_REPLY_STATUS ''QUEUED'',
           REDIS_REPLY_ARRAY [REDIS_REPLY_INTEGER 1, REDIS_REPLY_INTEGER 1]],
         logged = []\<rparr>)) = [(7, CACHE_RESULT_ERROR)]
   \<and> callbacks 2 (fst (invalidate_job False (RedisToken_new 1000 7) [''t1'', ''t2'']
      \<lparr>sent = [],
         incoming = [REDIS_REPLY_ARRAY [REDIS_REPLY_STRING ''k'', REDIS_REPLY_STRING ''1''],
           REDIS_REPLY_ARRAY [],
           REDIS_REPLY_STATUS ''OK'', REDIS_REPLY_STATUS ''QUEUED'',
           REDIS_REPLY_STATUS ''QUEUED'',
           REDIS_REPLY_ARRAY [REDIS_REPLY_INTEGER 1, REDIS_REPLY_INTEGER 1]],
         logged = []\<rparr>)) = [(7, CACHE_RESULT_ERROR)]
   \<and> sent (snd (invalidate_job False (RedisToken_new 1000 7) [''t1'', ''t2'']
      \<lparr>sent = [],
         incoming = [REDIS_REPLY_ARRAY [REDIS_REPLY_STRING ''k'', REDIS_REPLY_STRING ''1''],
           REDIS_REPLY_ARRAY [],
           REDIS_REPLY_STATUS ''OK'', REDIS_REPLY_STATUS ''QUEUED'',
           REDIS_REPLY_STATUS ''QUEUED'',
           REDIS_REPLY_ARRAY [REDIS_REPLY_INTEGER 1, REDIS_REPLY_INTEGER 1]],
         logged = []\<rparr>)) =
       [[Lit ''HGETALL'', Bytes ''t1''], [Lit ''HGETALL'', Bytes ''t2''], [Lit ''MULTI''],
        [Lit ''HDEL'', Bytes ''t1'', Bytes ''k''], [Lit ''DEL'', Bytes ''k''], [Lit ''EXEC'']]
   \<and> logged (snd (invalidate_job False (RedisToken_new 1000 7) [''t1'', ''t2'']
      \<lparr>sent = [],
         incoming = [REDIS_REPLY_ARRAY [REDIS_REPLY_STRING ''k'', REDIS_REPLY_STRING ''1''],
           REDIS_REPLY_ARRAY [],
           REDIS_REPLY_STATUS ''OK'', REDIS_REPLY_STATUS ''QUEUED'',
           REDIS_REPLY_STATUS ''QUEUED'',
           REDIS_REPLY_ARRAY [REDIS_REPLY_INTEGER 1, REDIS_REPLY_INTEGER 1]],
         logged = []\<rparr>)) =
       [MXS_ERROR ''Expected status message in the context of %s, but received a %s.'',
        MXS_ERROR
          ''Could not read EXEC reply from redis, the cache is now in an unknown state: %s, %s'']"
  by (simp add: job_defs numeral_3_eq_3)

text \<open>
  Without an empty hash the counts agree, and a conforming server ends in \<^verbatim>\<open>OK\<close> in either
  build. A reply to \<^verbatim>\<open>MULTI\<close> that is a status other than \<^verbatim>\<open>OK\<close>, and one that cannot be
  read, end in \<^verbatim>\<open>ERROR\<close>.
\<close>

lemma invalidate_conforming_server:
  "callbacks 2 (fst (invalidate_job ss_debug (RedisToken_new 1000 7) [''t1'']
      \<lparr>sent = [],
         incoming = [REDIS_REPLY_ARRAY [REDIS_REPLY_STRING ''k'', REDIS_REPLY_STRING ''1''],
           REDIS_REPLY_STATUS ''OK'', REDIS_REPLY_STATUS ''QUEUED'',
           REDIS_REPLY_STATUS ''QUEUED'',
           REDIS_REPLY_ARRAY [REDIS_REPLY_INTEGER 1, REDIS_REPLY_INTEGER 1]],
         logged = []\<rparr>)) = [(7, CACHE_RESULT_OK)]
   \<and> callbacks 2 (fst (invalidate_job ss_debug (RedisToken_new 1000 7) [''t1'']
      \<lparr>sent = [],
         incoming = [REDIS_REPLY_ARRAY [REDIS_REPLY_STRING ''k'', REDIS_REPLY_STRING ''1''],
           REDIS_REPLY_STATUS ''QUEUED''],
         logged = []\<rparr>)) = [(7, CACHE_RESULT_ERROR)]
   \<and> callbacks 2 (fst (invalidate_job ss_debug (RedisToken_new 1000 7) [''t1'']
      \<lparr>sent = [],
         incoming = [REDIS_REPLY_ARRAY [REDIS_REPLY_STRING ''k'', REDIS_REPLY_STRING ''1'']],
         logged = []\<rparr>)) = [(7, CACHE_RESULT_ERROR)]"
  by (cases ss_debug) (simp_all add: job_defs)

text \<open>
  The shape of the reply to \<^verbatim>\<open>EXEC\<close> is not checked at run time here either. On an error
  reply a debug build fails \<^verbatim>\<open>mxb_assert(reply.is_array())\<close> and a release build reads
  through the null element pointer. On an array that is too short a debug build fails
  \<^verbatim>\<open>mxb_assert(reply.elements() == hdel_argvs.size() + 1)\<close>, while a release build borrows
  a pointer from behind the array, never looks at it and delivers \<^verbatim>\<open>OK\<close>.
\<close>

lemma invalidate_exec_reply_shape:
  "fst (invalidate_job True (RedisToken_new 1000 7) [''t1'']
      \<lparr>sent = [],
         incoming = [REDIS_REPLY_ARRAY [REDIS_REPLY_STRING ''k'', REDIS_REPLY_STRING ''1''],
           REDIS_REPLY_STATUS ''OK'', REDIS_REPLY_ERROR ''MISCONF'',
           REDIS_REPLY_ERROR ''MISCONF'', REDIS_REPLY_ERROR ''EXECABORT''],
         logged = []\<rparr>) = Inl Assertion_failed
   \<and> fst (invalidate_job False (RedisToken_new 1000 7) [''t1'']
      \<lparr>sent = [],
         incoming = [REDIS_REPLY_ARRAY [REDIS_REPLY_STRING ''k'', REDIS_REPLY_STRING ''1''],
           REDIS_REPLY_STATUS ''OK'', REDIS_REPLY_ERROR ''MISCONF'',
           REDIS_REPLY_ERROR ''MISCONF'', REDIS_REPLY_ERROR ''EXECABORT''],
         logged = []\<rparr>) = Inl Invalid_read
   \<and> fst (invalidate_job True (RedisToken_new 1000 7) [''t1'']
      \<lparr>sent = [],
         incoming = [REDIS_REPLY_ARRAY [REDIS_REPLY_STRING ''k'', REDIS_REPLY_STRING ''1''],
           REDIS_REPLY_STATUS ''OK'', REDIS_REPLY_STATUS ''QUEUED'',
           REDIS_REPLY_STATUS ''QUEUED'', REDIS_REPLY_ARRAY [REDIS_REPLY_INTEGER 1]],
         logged = []\<rparr>) = Inl Assertion_failed
   \<and> fst (invalidate_job False (RedisToken_new 1000 7) [''t1'']
      \<lparr>sent = [],
         incoming = [REDIS_REPLY_ARRAY [REDIS_REPLY_STRING ''k'', REDIS_REPLY_STRING ''1''],
           REDIS_REPLY_STATUS ''OK'', REDIS_REPLY_STATUS ''QUEUED'',
           REDIS_REPLY_STATUS ''QUEUED'', REDIS_REPLY_ARRAY [REDIS_REPLY_INTEGER 1]],
         logged = []\<rparr>) = Inr (Posted 7 CACHE_RESULT_OK)"
  by (simp add: job_defs)

end
